theory Spec2Isabelle
  imports Complex_Main "HOL-Library.Multiset"
begin

section \<open>Pizzatron: the store, the AI gateway and the background tasks\<close>

text \<open>
  The development follows the three modules of the application: \<open>src/db.py\<close> (the
  SQLAlchemy models and \<open>DatabaseManager\<close>), \<open>src/ai.py\<close> (the two calls to the
  remote provider) and \<open>src/app.py\<close> (the request handlers, the background tasks and
  the leaderboard query).

  Python exceptions are values: a function that can raise returns \<open>exn + 'a\<close>, with
  \<open>Inl\<close> the exception. Strings and byte strings are \<open>string\<close>; Python integers are
  \<open>int\<close>.
\<close>

datatype exn =
    KeyError string
  | OperationalError
  | OverflowError
  | Exception string

type_synonym bytes = string

subsection \<open>The tables of \<open>db.py\<close>\<close>

text \<open>
  One record per mapped class, one field per column. The \<open>created_at\<close> columns are
  filled by the clock and read by no operation modelled here; they are left out.
\<close>

record Chef =
  Chef_id :: int
  Chef_name :: string
  Chef_image_path :: "string option"

record Pizza =
  Pizza_id :: int
  Pizza_chef_id :: int

record PizzaImage =
  PizzaImage_id :: int
  PizzaImage_pizza_id :: int
  PizzaImage_image_path :: string

record ReviewCategory =
  ReviewCategory_id :: int
  ReviewCategory_name :: string

record PizzaReview =
  PizzaReview_id :: int
  PizzaReview_pizza_id :: int
  PizzaReview_review_summary :: string

record PizzaReviewScore =
  PizzaReviewScore_id :: int
  PizzaReviewScore_pizza_review_id :: int
  PizzaReviewScore_category_id :: int
  PizzaReviewScore_score :: int

text \<open>
  The database is the six tables, each the list of its rows in insertion order. The
  fields carry the \<open>__tablename__\<close> of each class.
\<close>

record db =
  chefs :: "Chef list"
  pizzas :: "Pizza list"
  pizza_images :: "PizzaImage list"
  review_categories :: "ReviewCategory list"
  pizza_review :: "PizzaReview list"
  pizza_review_scores :: "PizzaReviewScore list"

definition empty_db :: db where
  "empty_db = \<lparr>chefs = [], pizzas = [], pizza_images = [], review_categories = [],
     pizza_review = [], pizza_review_scores = []\<rparr>"

text \<open>
  An \<open>Integer primary_key\<close> column of SQLite is the rowid: a new row gets 1 in an empty
  table and the largest id plus one otherwise.
\<close>

definition next_id :: "int list \<Rightarrow> int" where
  "next_id ids = (case ids of [] \<Rightarrow> 1 | x # xs \<Rightarrow> fold max xs x + 1)"

text \<open>
  An \<open>INTEGER\<close> of SQLite is a signed 64-bit integer. The \<open>sqlite3\<close> driver raises
  \<open>OverflowError\<close> when it is given a Python integer outside this range to bind.
\<close>

definition sqlite_integer :: "int \<Rightarrow> bool" where
  "sqlite_integer i = (- (2 ^ 63) \<le> i \<and> i < 2 ^ 63)"

subsection \<open>The engine\<close>


subsection \<open>The AI gateway (\<open>ai.py\<close>)\<close>

text \<open>
  What \<open>review_pizza_images\<close> returns is a dictionary read from JSON. Its values are
  typed as the docstring of the function states (\<open>review_summary: str\<close>,
  \<open>scores: dict of category -> int\<close>); either key may be absent, which is \<open>None\<close>.
  The inner dictionary is the list of its items in iteration order.
\<close>

record review_data =
  rd_review_summary :: "string option"
  rd_scores :: "(string \<times> int) list option"

text \<open>
  The surroundings of the gateway: the files under \<open>src/\<close>, the two prompt files
  (\<open>src/prompts/chef_image.txt\<close> and \<open>src/prompts/pizza_review_system_prompt.txt\<close>,
  the latter already formatted with the chef's name), the image normalisation done with
  PIL, and the remote provider. The provider and the JSON parser are black boxes; the
  \<open>k\<close>-th call of \<open>client.images.edit\<close> made by one invocation, followed by the
  base64 decoding of its result, is \<open>images_edit k\<close>.
\<close>

record review_request =
  req_system_prompt :: string
  req_user_prompt :: string
  req_image_parts :: "string list"
  req_score_props :: "string list"

record ai_env =
  files :: "string \<Rightarrow> bytes option"
  chef_image_prompt :: string
  pizza_review_system_prompt :: "string \<Rightarrow> string"
  process_image :: "bytes \<Rightarrow> exn + bytes"
  images_edit :: "nat \<Rightarrow> bytes \<Rightarrow> string \<Rightarrow> exn + bytes"
  b64encode :: "bytes \<Rightarrow> string"
  chat_completions_create :: "review_request \<Rightarrow> exn + string"
  json_loads :: "string \<Rightarrow> exn + review_data"

datatype event = Call nat | Sleep nat

text \<open>
  The loop \<open>for attempt in range(max_retries)\<close> of \<open>generate_chef_image\<close>, with the
  remaining attempts, the current \<open>retry_delay\<close> and the events so far. A loop that runs
  out of attempts without returning or raising falls off the end of the function, which
  returns \<open>None\<close>.
\<close>

fun retry_loop ::
  "(nat \<Rightarrow> exn + bytes) \<Rightarrow> nat \<Rightarrow> nat list \<Rightarrow> nat \<Rightarrow> event list
     \<Rightarrow> (exn + bytes option) \<times> event list" where
  "retry_loop call max_retries [] retry_delay tr = (Inr None, tr)"
| "retry_loop call max_retries (attempt # rest) retry_delay tr =
     (case call attempt of
        Inr image_bytes \<Rightarrow> (Inr (Some image_bytes), tr @ [Call attempt])
      | Inl e \<Rightarrow>
          if int attempt = int max_retries - 1 then (Inl e, tr @ [Call attempt])
          else retry_loop call max_retries rest (retry_delay * 2)
                 (tr @ [Call attempt, Sleep retry_delay]))"

definition generate_chef_image ::
  "ai_env \<Rightarrow> bytes \<Rightarrow> (exn + bytes option) \<times> event list" where
  "generate_chef_image env reference_image_bytes =
     (let processed_image_bytes =
            (case process_image env reference_image_bytes of
               Inr b \<Rightarrow> b
             | Inl e \<Rightarrow> reference_image_bytes);
          prompt = chef_image_prompt env;
          max_retries = 3;
          retry_delay = 2
      in retry_loop (\<lambda>k. images_edit env k processed_image_bytes prompt)
           max_retries [0..<max_retries] retry_delay [])"

definition is_call :: "event \<Rightarrow> bool" where
  "is_call ev = (case ev of Call k \<Rightarrow> True | Sleep d \<Rightarrow> False)"

definition processed :: "ai_env \<Rightarrow> bytes \<Rightarrow> bytes" where
  "processed env b = (case process_image env b of Inr b' \<Rightarrow> b' | Inl e \<Rightarrow> b)"

subsection \<open>\<open>review_pizza_images\<close>\<close>

text \<open>
  \<open>image_path.lstrip("/")\<close> and \<open>os.path.join("src", _)\<close>: the stripped path never
  starts with a slash, so the join is the concatenation with one separator.
\<close>

definition local_path :: "string \<Rightarrow> string" where
  "local_path image_path = ''src/'' @ dropWhile (\<lambda>c. c = CHR ''/'') image_path"

text \<open>
  The keys of a dictionary comprehension \<open>{k: _ for k in ks}\<close>, in iteration order:
  a repeated key keeps its first position.
\<close>

fun dict_keys :: "string list \<Rightarrow> string list" where
  "dict_keys [] = []"
| "dict_keys (k # ks) = k # removeAll k (dict_keys ks)"

text \<open>The loop over \<open>pizza_image_paths\<close>: a path that cannot be opened is skipped.\<close>

fun read_image_parts :: "ai_env \<Rightarrow> string list \<Rightarrow> string list" where
  "read_image_parts env [] = []"
| "read_image_parts env (image_path # rest) =
     (case files env (local_path image_path) of
        Some content \<Rightarrow>
          (''data:image/jpeg;base64,'' @ b64encode env content) # read_image_parts env rest
      | None \<Rightarrow> read_image_parts env rest)"

text \<open>
  The function returns its result together with the requests it sent to the remote
  provider.
\<close>

definition review_pizza_images ::
  "ai_env \<Rightarrow> db \<Rightarrow> string list \<Rightarrow> string \<Rightarrow> (exn + review_data) \<times> review_request list" where
  "review_pizza_images env d pizza_image_paths chef_name =
     (let category_names = map ReviewCategory_name (review_categories d);
          system_prompt = pizza_review_system_prompt env chef_name;
          image_parts = read_image_parts env pizza_image_paths
      in if image_parts = [] then
           (Inr \<lparr>rd_review_summary = Some ''No images supplied for review.'',
                 rd_scores = Some (map (\<lambda>cat_name. (cat_name, 0)) (dict_keys category_names))\<rparr>,
            [])
         else
           let score_props = dict_keys category_names;
               user_prompt = ''Here is the submission from chef '' @ chef_name @ ''. ''
                 @ ''Please review it and produce ONLY JSON matching the schema.'';
               request = \<lparr>req_system_prompt = system_prompt, req_user_prompt = user_prompt,
                 req_image_parts = image_parts, req_score_props = score_props\<rparr>
           in (case chat_completions_create env request of
                 Inl e \<Rightarrow> (Inl e, [request])
               | Inr review \<Rightarrow> (json_loads env review, [request])))"

subsection \<open>\<open>DatabaseManager\<close>\<close>

text \<open>
  Every writing method adds its objects to a fresh session and commits. A commit either
  writes all pending rows or raises and writes none; the flag \<open>commit_raises\<close> says
  whether the engine fails this commit (a locked or unwritable database file). The
  engine is created as \<open>create_engine('sqlite:///...')\<close> and nothing in the source
  switches on SQLite's foreign-key enforcement, so a commit does not check that a
  referenced row exists.
\<close>

definition seed_database :: "bool \<Rightarrow> db \<Rightarrow> (exn + unit) \<times> db" where
  "seed_database commit_raises d =
     (if length (review_categories d) > 0 then (Inr (), d)
      else if commit_raises then (Inl OperationalError, d)
      else (Inr (), d\<lparr>review_categories :=
        [\<lparr>ReviewCategory_id = 1, ReviewCategory_name = ''Shape''\<rparr>,
         \<lparr>ReviewCategory_id = 2, ReviewCategory_name = ''Crust Quality''\<rparr>,
         \<lparr>ReviewCategory_id = 3, ReviewCategory_name = ''Presentation''\<rparr>,
         \<lparr>ReviewCategory_id = 4, ReviewCategory_name = ''Bake Quality''\<rparr>,
         \<lparr>ReviewCategory_id = 5, ReviewCategory_name = ''Flavor (estimated)''\<rparr>,
         \<lparr>ReviewCategory_id = 6, ReviewCategory_name = ''Overall''\<rparr>]\<rparr>))"

definition get_chef_by_id :: "db \<Rightarrow> int \<Rightarrow> Chef option" where
  "get_chef_by_id d chef_id = find (\<lambda>c. Chef_id c = chef_id) (chefs d)"

definition create_chef :: "bool \<Rightarrow> db \<Rightarrow> string \<Rightarrow> string option \<Rightarrow> (exn + Chef) \<times> db" where
  "create_chef commit_raises d name image_path =
     (if commit_raises then (Inl OperationalError, d)
      else
        let chef = \<lparr>Chef_id = next_id (map Chef_id (chefs d)), Chef_name = name,
                    Chef_image_path = image_path\<rparr>
        in (Inr chef, d\<lparr>chefs := chefs d @ [chef]\<rparr>))"

definition create_pizza :: "bool \<Rightarrow> db \<Rightarrow> int \<Rightarrow> (exn + Pizza) \<times> db" where
  "create_pizza commit_raises d chef_id =
     (if commit_raises then (Inl OperationalError, d)
      else
        let pizza = \<lparr>Pizza_id = next_id (map Pizza_id (pizzas d)), Pizza_chef_id = chef_id\<rparr>
        in (Inr pizza, d\<lparr>pizzas := pizzas d @ [pizza]\<rparr>))"

definition add_pizza_image :: "bool \<Rightarrow> db \<Rightarrow> int \<Rightarrow> string \<Rightarrow> (exn + PizzaImage) \<times> db" where
  "add_pizza_image commit_raises d pizza_id image_path =
     (if commit_raises then (Inl OperationalError, d)
      else
        let pizza_image = \<lparr>PizzaImage_id = next_id (map PizzaImage_id (pizza_images d)),
                           PizzaImage_pizza_id = pizza_id, PizzaImage_image_path = image_path\<rparr>
        in (Inr pizza_image, d\<lparr>pizza_images := pizza_images d @ [pizza_image]\<rparr>))"







subsection \<open>The background review task (\<open>app.py\<close>)\<close>

text \<open>
  The task never raises; what it did is the message it prints: the review was saved, the
  inner handler caught an exception and rolled the session back, or the outer handler
  caught one.
\<close>

datatype task_log = Saved | DatabaseError exn | ReviewFailed exn

text \<open>\<open>{cat.name: cat.id for cat in categories}\<close>: a repeated name keeps its last id.\<close>

definition category_map :: "ReviewCategory list \<Rightarrow> string \<Rightarrow> int option" where
  "category_map categories =
     map_of (rev (map (\<lambda>cat. (ReviewCategory_name cat, ReviewCategory_id cat)) categories))"

text \<open>
  The loop over \<open>review_data["scores"].items()\<close>: the score records added to the
  session, as (review id, category id, score), in the order they are added.
\<close>

fun score_records ::
  "(string \<Rightarrow> int option) \<Rightarrow> int \<Rightarrow> (string \<times> int) list \<Rightarrow> (int \<times> int \<times> int) list" where
  "score_records cmap review_id [] = []"
| "score_records cmap review_id ((category_name, score) # rest) =
     (case cmap category_name of
        Some category_id \<Rightarrow> (review_id, category_id, score) # score_records cmap review_id rest
      | None \<Rightarrow> score_records cmap review_id rest)"

text \<open>The flush of the pending score records: each gets the next id of the table.\<close>

fun insert_scores ::
  "PizzaReviewScore list \<Rightarrow> (int \<times> int \<times> int) list \<Rightarrow> PizzaReviewScore list" where
  "insert_scores table [] = table"
| "insert_scores table ((review_id, category_id, score) # rest) =
     insert_scores
       (table @ [\<lparr>PizzaReviewScore_id = next_id (map PizzaReviewScore_id table),
                  PizzaReviewScore_pizza_review_id = review_id,
                  PizzaReviewScore_category_id = category_id,
                  PizzaReviewScore_score = score\<rparr>]) rest"

text \<open>
  The score records that the driver cannot bind: \<open>score\<close> is the integer of the review
  result, handed over as it comes. The two ids of a record are read from the store, and
  so is the pizza id of the review row: the handler schedules the task with the id of
  the pizza row it has just created.
\<close>

definition overflows :: "(int \<times> int \<times> int) list \<Rightarrow> bool" where
  "overflows recs = list_ex (\<lambda>(review_id, category_id, score). \<not> sqlite_integer score) recs"

text \<open>
  The inner \<open>try\<close> block, "Save review to database". It commits twice: the review row
  first (\<open>commit_raises 0\<close>), then the score rows together (\<open>commit_raises 1\<close>). The
  second commit flushes the pending score records in one transaction; it raises, and
  writes none of them, when one of the scores does not fit an \<open>INTEGER\<close> or when the
  engine fails it. The \<open>rollback\<close> of the handler discards what is pending, not what is
  committed.
\<close>

definition save_review :: "(nat \<Rightarrow> bool) \<Rightarrow> db \<Rightarrow> int \<Rightarrow> review_data \<Rightarrow> task_log \<times> db" where
  "save_review commit_raises d pizza_id review_data =
     (case rd_review_summary review_data of
        None \<Rightarrow> (DatabaseError (KeyError ''review_summary''), d)
      | Some summary \<Rightarrow>
          if commit_raises 0 then (DatabaseError OperationalError, d)
          else
            let review = \<lparr>PizzaReview_id = next_id (map PizzaReview_id (pizza_review d)),
                          PizzaReview_pizza_id = pizza_id,
                          PizzaReview_review_summary = summary\<rparr>;
                d1 = d\<lparr>pizza_review := pizza_review d @ [review]\<rparr>;
                cmap = category_map (review_categories d1)
            in (case rd_scores review_data of
                  None \<Rightarrow> (DatabaseError (KeyError ''scores''), d1)
                | Some items \<Rightarrow>
                    let recs = score_records cmap (PizzaReview_id review) items
                    in if overflows recs then (DatabaseError OverflowError, d1)
                       else if commit_raises 1 then (DatabaseError OperationalError, d1)
                       else (Saved, d1\<lparr>pizza_review_scores :=
                               insert_scores (pizza_review_scores d1) recs\<rparr>)))"

definition process_pizza_review_background ::
  "ai_env \<Rightarrow> (nat \<Rightarrow> bool) \<Rightarrow> db \<Rightarrow> int \<Rightarrow> string list \<Rightarrow> string \<Rightarrow> task_log \<times> db" where
  "process_pizza_review_background env commit_raises d pizza_id image_paths chef_name =
     (case fst (review_pizza_images env d image_paths chef_name) of
        Inl e \<Rightarrow> (ReviewFailed e, d)
      | Inr review_data \<Rightarrow> save_review commit_raises d pizza_id review_data)"

subsection \<open>The leaderboard query (\<open>app.py\<close>)\<close>





subsection \<open>Deleting a chef\<close>

text \<open>
  Modelled from the spec: no function of the repository deletes a Chef, so the operation
  itself is missing; \<open>db.py\<close> has only the cascade declarations on the relationships
  (\<open>Chef.pizzas\<close>, \<open>Pizza.images\<close>, \<open>Pizza.review\<close> and \<open>PizzaReview.scores\<close>, each
  with \<open>cascade="all, delete-orphan"\<close>). Following the spec ("deleting a Chef
  transitively deletes its Pizzas, their Images, their Review, and that Review's
  Scores", children before the parent in one transaction), the delete walks these
  relationships from the chef and removes every row it reaches, by primary key.
  \<open>Pizza.review\<close> is declared \<open>uselist=False\<close>: it loads one review per pizza, here
  the first that matches (in a store where a pizza has one review at most, the only
  one).
\<close>

definition delete_chef :: "db \<Rightarrow> int \<Rightarrow> db" where
  "delete_chef d chef_id =
     (case find (\<lambda>c. Chef_id c = chef_id) (chefs d) of
        None \<Rightarrow> d
      | Some chef \<Rightarrow>
          let ps = filter (\<lambda>p. Pizza_chef_id p = Chef_id chef) (pizzas d);
              imgs = concat (map (\<lambda>p. filter (\<lambda>i. PizzaImage_pizza_id i = Pizza_id p)
                                        (pizza_images d)) ps);
              revs = concat (map (\<lambda>p. case find (\<lambda>r. PizzaReview_pizza_id r = Pizza_id p)
                                             (pizza_review d) of
                                        Some r \<Rightarrow> [r] | None \<Rightarrow> []) ps);
              scs = concat (map (\<lambda>r. filter (\<lambda>s. PizzaReviewScore_pizza_review_id s
                                                  = PizzaReview_id r)
                                       (pizza_review_scores d)) revs)
          in d\<lparr>chefs := filter (\<lambda>c. Chef_id c \<noteq> Chef_id chef) (chefs d),
               pizzas := filter (\<lambda>p. Pizza_id p \<notin> set (map Pizza_id ps)) (pizzas d),
               pizza_images := filter (\<lambda>i. PizzaImage_id i \<notin> set (map PizzaImage_id imgs))
                                 (pizza_images d),
               pizza_review := filter (\<lambda>r. PizzaReview_id r \<notin> set (map PizzaReview_id revs))
                                 (pizza_review d),
               pizza_review_scores :=
                 filter (\<lambda>s. PizzaReviewScore_id s \<notin> set (map PizzaReviewScore_id scs))
                   (pizza_review_scores d)\<rparr>)"

subsection \<open>The request handlers (\<open>app.py\<close>)\<close>

text \<open>
  An uploaded file is its name, the lower-cased suffix of the name
  (\<open>Path(filename).suffix.lower()\<close>) and its bytes. A handler returns a template
  with an error message, the template with the text of a caught exception, or a
  redirect. The files a handler writes under \<open>src/static\<close> are not part of the model;
  the handler is given the random tokens it draws from \<open>uuid4\<close>. Besides the response
  and the store, a handler returns the background task it has scheduled, if any.
\<close>

record UploadFile =
  filename :: string
  file_extension :: string
  content :: bytes

datatype response =
    TemplateResponse string string
  | FailureResponse string exn
  | RedirectResponse string

definition allowed_extensions :: "string set" where
  "allowed_extensions = {''.jpg'', ''.jpeg'', ''.png'', ''.gif'', ''.webp''}"

text \<open>
  \<open>str.strip()\<close>: the characters Python counts as whitespace, among the code points
  below 256.
\<close>

definition py_isspace :: "char \<Rightarrow> bool" where
  "py_isspace c = ((of_char c :: nat) \<in> {9, 10, 11, 12, 13, 28, 29, 30, 31, 32, 133, 160})"

definition strip :: "string \<Rightarrow> string" where
  "strip s = rev (dropWhile py_isspace (rev (dropWhile py_isspace s)))"

fun digits :: "nat \<Rightarrow> string" where
  "digits n = (if n < 10 then [char_of (48 + n)]
               else digits (n div 10) @ [char_of (48 + n mod 10)])"

definition str_int :: "int \<Rightarrow> string" where
  "str_int i = (if i < 0 then CHR ''-'' # digits (nat (- i)) else digits (nat i))"

definition create_chef_submit ::
  "bool \<Rightarrow> string \<Rightarrow> db \<Rightarrow> string \<Rightarrow> UploadFile option
     \<Rightarrow> response \<times> db \<times> (int \<times> bytes \<times> string) option" where
  "create_chef_submit commit_raises token d name upload =
     (if name = [] \<or> length (strip name) = 0 then
        (TemplateResponse ''create_chef.html'' ''Chef name is required'', d, None)
      else
        (case (case upload of
                 Some img \<Rightarrow> if filename img \<noteq> [] then Some img else None
               | None \<Rightarrow> None) of
           Some img \<Rightarrow>
             if file_extension img \<notin> allowed_extensions then
               (TemplateResponse ''create_chef.html''
                  ''Invalid image format. Please use JPG, PNG, GIF, or WebP.'', d, None)
             else
               let temp_image_path =
                     ''/static/images/chefs/chef_temp_'' @ token @ file_extension img
               in (case create_chef commit_raises d (strip name) (Some temp_image_path) of
                     (Inl e, d') \<Rightarrow> (FailureResponse ''create_chef.html'' e, d', None)
                   | (Inr chef, d') \<Rightarrow>
                       (RedirectResponse (''/chef/'' @ str_int (Chef_id chef)), d',
                        if content img \<noteq> []
                        then Some (Chef_id chef, content img, filename img) else None))
         | None \<Rightarrow>
             (case create_chef commit_raises d (strip name) None of
                (Inl e, d') \<Rightarrow> (FailureResponse ''create_chef.html'' e, d', None)
              | (Inr chef, d') \<Rightarrow>
                  (RedirectResponse (''/chef/'' @ str_int (Chef_id chef)), d', None))))"

text \<open>
  The loop of \<open>submit_pizza_handler\<close> that stores the images: \<open>i\<close> is the index
  given by \<open>enumerate\<close>; the commit of image \<open>i\<close> fails when \<open>commit_raises (i + 1)\<close>
  (\<open>commit_raises 0\<close> is the commit of the pizza row).
\<close>

fun save_pizza_images ::
  "(nat \<Rightarrow> bool) \<Rightarrow> (nat \<Rightarrow> string) \<Rightarrow> int \<Rightarrow> (nat \<times> UploadFile) list \<Rightarrow> db \<Rightarrow> string list
     \<Rightarrow> (exn + string list) \<times> db" where
  "save_pizza_images commit_raises tokens pizza_id [] d pizza_image_paths =
     (Inr pizza_image_paths, d)"
| "save_pizza_images commit_raises tokens pizza_id ((i, img) # rest) d pizza_image_paths =
     (if filename img \<noteq> [] then
        let unique_filename = ''pizza_'' @ str_int pizza_id @ ''_'' @ str_int (int i + 1)
              @ ''_'' @ tokens i @ file_extension img;
            web_path = ''/static/images/pizzas/'' @ unique_filename
        in (case add_pizza_image (commit_raises (i + 1)) d pizza_id web_path of
              (Inl e, d') \<Rightarrow> (Inl e, d')
            | (Inr pizza_image, d') \<Rightarrow>
                save_pizza_images commit_raises tokens pizza_id rest d'
                  (pizza_image_paths @ [web_path]))
      else save_pizza_images commit_raises tokens pizza_id rest d pizza_image_paths)"

definition submit_pizza_handler ::
  "(nat \<Rightarrow> bool) \<Rightarrow> (nat \<Rightarrow> string) \<Rightarrow> db \<Rightarrow> int \<Rightarrow> UploadFile list
     \<Rightarrow> response \<times> db \<times> (int \<times> string list \<times> string) option" where
  "submit_pizza_handler commit_raises tokens d chef_id images =
     (case get_chef_by_id d chef_id of
        None \<Rightarrow> (TemplateResponse ''submit_pizza.html'' ''Invalid chef selected'', d, None)
      | Some chef \<Rightarrow>
          if length images < 1 \<or> length images > 3 then
            (TemplateResponse ''submit_pizza.html'' ''Please upload 1-3 pizza images'', d, None)
          else if list_ex (\<lambda>img. filename img \<noteq> []
                             \<and> file_extension img \<notin> allowed_extensions) images then
            (TemplateResponse ''submit_pizza.html''
               ''Invalid image format. Please use JPG, PNG, GIF, or WebP.'', d, None)
          else
            (case create_pizza (commit_raises 0) d chef_id of
               (Inl e, d') \<Rightarrow> (FailureResponse ''submit_pizza.html'' e, d', None)
             | (Inr pizza, d') \<Rightarrow>
                 (case save_pizza_images commit_raises tokens (Pizza_id pizza)
                         (enumerate 0 images) d' [] of
                    (Inl e, d'') \<Rightarrow> (FailureResponse ''submit_pizza.html'' e, d'', None)
                  | (Inr pizza_image_paths, d'') \<Rightarrow>
                      (RedirectResponse (''/pizza/'' @ str_int (Pizza_id pizza)), d'',
                       Some (Pizza_id pizza, pizza_image_paths, Chef_name chef)))))"

subsection \<open>Well-formed stores\<close>

text \<open>
  What the schema guarantees of the category table: the primary key and the
  \<open>unique=True\<close> name.
\<close>

definition unique_categories :: "db \<Rightarrow> bool" where
  "unique_categories d =
     (distinct (map ReviewCategory_id (review_categories d))
      \<and> distinct (map ReviewCategory_name (review_categories d)))"


text \<open>The one-to-one relationship between a pizza and its review.\<close>

definition one_review_per_pizza :: "db \<Rightarrow> bool" where
  "one_review_per_pizza d = distinct (map PizzaReview_pizza_id (pizza_review d))"

text \<open>
  The scores of a review result that the task hands to the store are those whose name
  is a category; each of them fits an \<open>INTEGER\<close>.
\<close>

definition scores_fit :: "db \<Rightarrow> (string \<times> int) list \<Rightarrow> bool" where
  "scores_fit d items =
     list_all (\<lambda>(n, s). n \<in> ReviewCategory_name ` set (review_categories d)
                          \<longrightarrow> sqlite_integer s) items"

text \<open>The rows of a score table that a later state has added at its end.\<close>

definition new_scores :: "db \<Rightarrow> db \<Rightarrow> PizzaReviewScore list" where
  "new_scores d d' = drop (length (pizza_review_scores d)) (pizza_review_scores d')"

definition score_record :: "PizzaReviewScore \<Rightarrow> int \<times> int \<times> int" where
  "score_record s =
     (PizzaReviewScore_pizza_review_id s, PizzaReviewScore_category_id s,
      PizzaReviewScore_score s)"

text \<open>The review row that the first commit of \<open>save_review\<close> writes.\<close>

definition saved_review :: "db \<Rightarrow> int \<Rightarrow> string \<Rightarrow> PizzaReview" where
  "saved_review d pizza_id summary =
     \<lparr>PizzaReview_id = next_id (map PizzaReview_id (pizza_review d)),
      PizzaReview_pizza_id = pizza_id, PizzaReview_review_summary = summary\<rparr>"

subsection \<open>Sample surroundings and stores\<close>

text \<open>
  A provider whose image call fails twice and then succeeds, with one readable pizza
  image on disk, and a provider whose calls always fail.
\<close>

definition sample_env :: ai_env where
  "sample_env =
     \<lparr>files = (\<lambda>p. if p = ''src/static/images/pizzas/a.jpg'' then Some ''JPEG'' else None),
      chef_image_prompt = ''Draw the chef'',
      pizza_review_system_prompt = (\<lambda>chef_name. ''Judge '' @ chef_name),
      process_image = (\<lambda>b. Inr b),
      images_edit = (\<lambda>k b p. if k < 2 then Inl (Exception ''timeout'') else Inr ''PNG''),
      b64encode = (\<lambda>b. b),
      chat_completions_create = (\<lambda>r. Inr ''{}''),
      json_loads = (\<lambda>s. Inr \<lparr>rd_review_summary = Some ''Good'',
                              rd_scores = Some [(''Shape'', 5), (''Overall'', 3)]\<rparr>)\<rparr>"

definition failing_env :: ai_env where
  "failing_env = sample_env\<lparr>images_edit := (\<lambda>k b p. Inl (Exception ''down'')),
     chat_completions_create := (\<lambda>r. Inl (Exception ''down''))\<rparr>"

text \<open>The store after the first start of the application: the six categories, no rows.\<close>

definition seeded_db :: db where
  "seeded_db = snd (seed_database False empty_db)"

text \<open>
  A provider whose answer names a category the store does not know, and one whose answer
  lacks the scores.
\<close>

definition drift_env :: ai_env where
  "drift_env = sample_env\<lparr>json_loads :=
     (\<lambda>s. Inr \<lparr>rd_review_summary = Some ''Good'',
                 rd_scores = Some [(''Shape'', 4), (''Aroma'', 5), (''Overall'', 3)]\<rparr>)\<rparr>"

definition partial_env :: ai_env where
  "partial_env = sample_env\<lparr>json_loads :=
     (\<lambda>s. Inr \<lparr>rd_review_summary = Some ''Good'', rd_scores = None\<rparr>)\<rparr>"

text \<open>
  A provider whose answer gives a score that no \<open>INTEGER\<close> column can hold.
\<close>

definition huge_env :: ai_env where
  "huge_env = sample_env\<lparr>json_loads :=
     (\<lambda>s. Inr \<lparr>rd_review_summary = Some ''Good'',
                 rd_scores = Some [(''Shape'', 5), (''Overall'', 2 ^ 63)]\<rparr>)\<rparr>"


text \<open>The store with one chef and one pizza of that chef, not yet reviewed.\<close>

definition sample_db :: db where
  "sample_db = snd (create_pizza False (snd (create_chef False seeded_db ''Mario Rossi'' None)) 1)"


text \<open>
  A store with two chefs: chef 1 owns pizza 1, with an image, a review and two scores;
  chef 2 owns pizza 2, with an image, a review and one score.
\<close>

definition two_chefs_db :: db where
  "two_chefs_db = seeded_db
     \<lparr>chefs := [\<lparr>Chef_id = 1, Chef_name = ''Mario Rossi'', Chef_image_path = None\<rparr>,
                \<lparr>Chef_id = 2, Chef_name = ''Luigi Bianchi'', Chef_image_path = None\<rparr>],
      pizzas := [\<lparr>Pizza_id = 1, Pizza_chef_id = 1\<rparr>, \<lparr>Pizza_id = 2, Pizza_chef_id = 2\<rparr>],
      pizza_images :=
        [\<lparr>PizzaImage_id = 1, PizzaImage_pizza_id = 1, PizzaImage_image_path = ''a.jpg''\<rparr>,
         \<lparr>PizzaImage_id = 2, PizzaImage_pizza_id = 2, PizzaImage_image_path = ''b.jpg''\<rparr>],
      pizza_review :=
        [\<lparr>PizzaReview_id = 1, PizzaReview_pizza_id = 1, PizzaReview_review_summary = ''Fair''\<rparr>,
         \<lparr>PizzaReview_id = 2, PizzaReview_pizza_id = 2, PizzaReview_review_summary = ''Good''\<rparr>],
      pizza_review_scores :=
        [\<lparr>PizzaReviewScore_id = 1, PizzaReviewScore_pizza_review_id = 1,
          PizzaReviewScore_category_id = 1, PizzaReviewScore_score = 5\<rparr>,
         \<lparr>PizzaReviewScore_id = 2, PizzaReviewScore_pizza_review_id = 1,
          PizzaReviewScore_category_id = 6, PizzaReviewScore_score = 3\<rparr>,
         \<lparr>PizzaReviewScore_id = 3, PizzaReviewScore_pizza_review_id = 2,
          PizzaReviewScore_category_id = 6, PizzaReviewScore_score = 4\<rparr>]\<rparr>"

section \<open>Properties\<close>

text \<open>The definitions that evaluate the sample surroundings and stores.\<close>

lemmas sample_defs = sample_env_def sample_db_def seeded_db_def
  seed_database_def empty_db_def create_chef_def create_pizza_def next_id_def Let_def
  process_pizza_review_background_def review_pizza_images_def local_path_def save_review_def
  category_map_def new_scores_def score_record_def

subsection \<open>The retry loop\<close>

lemma retry_loop_calls:
  "length (filter is_call (snd (retry_loop call m as d tr)))
     \<le> length (filter is_call tr) + length as"
  by (induction call m as d tr rule: retry_loop.induct)
     (auto simp: is_call_def split: sum.splits)

lemma upt_3: "[0..<3] = [0, Suc 0, 2]"
  by (simp add: upt_rec)

text \<open>
  C4. \<open>generate_chef_image\<close> calls the remote provider at most three times. When the
  first two calls fail and the third succeeds, it returns the third call's result after
  sleeping 2 and then 4 seconds, and the third call is the last event. When all three
  calls fail, the same three calls and two sleeps happen and the third exception is
  raised to the caller.
\<close>

theorem generate_chef_image_retry:
  "length (filter is_call (snd (generate_chef_image env img))) \<le> 3
   \<and> (\<forall>e0 e1 r.
        images_edit env 0 (processed env img) (chef_image_prompt env) = Inl e0 \<longrightarrow>
        images_edit env 1 (processed env img) (chef_image_prompt env) = Inl e1 \<longrightarrow>
        images_edit env 2 (processed env img) (chef_image_prompt env) = Inr r \<longrightarrow>
        generate_chef_image env img
          = (Inr (Some r), [Call 0, Sleep 2, Call 1, Sleep 4, Call 2]))
   \<and> (\<forall>e0 e1 e2.
        images_edit env 0 (processed env img) (chef_image_prompt env) = Inl e0 \<longrightarrow>
        images_edit env 1 (processed env img) (chef_image_prompt env) = Inl e1 \<longrightarrow>
        images_edit env 2 (processed env img) (chef_image_prompt env) = Inl e2 \<longrightarrow>
        generate_chef_image env img
          = (Inl e2, [Call 0, Sleep 2, Call 1, Sleep 4, Call 2]))"
proof (intro conjI allI impI)
  have "length (filter is_call (snd (generate_chef_image env img)))
          \<le> length (filter is_call []) + length [0..<(3::nat)]"
    unfolding generate_chef_image_def Let_def by (rule retry_loop_calls)
  then show "length (filter is_call (snd (generate_chef_image env img))) \<le> 3"
    by simp
next
  fix e0 e1 r
  assume "images_edit env 0 (processed env img) (chef_image_prompt env) = Inl e0"
    and "images_edit env 1 (processed env img) (chef_image_prompt env) = Inl e1"
    and "images_edit env 2 (processed env img) (chef_image_prompt env) = Inr r"
  then show "generate_chef_image env img
      = (Inr (Some r), [Call 0, Sleep 2, Call 1, Sleep 4, Call 2])"
    by (simp add: generate_chef_image_def processed_def upt_3)
next
  fix e0 e1 e2
  assume "images_edit env 0 (processed env img) (chef_image_prompt env) = Inl e0"
    and "images_edit env 1 (processed env img) (chef_image_prompt env) = Inl e1"
    and "images_edit env 2 (processed env img) (chef_image_prompt env) = Inl e2"
  then show "generate_chef_image env img
      = (Inl e2, [Call 0, Sleep 2, Call 1, Sleep 4, Call 2])"
    by (simp add: generate_chef_image_def processed_def upt_3)
qed

theorem generate_chef_image_retry_witness:
  "generate_chef_image sample_env ''photo''
     = (Inr (Some ''PNG''), [Call 0, Sleep 2, Call 1, Sleep 4, Call 2])
   \<and> generate_chef_image failing_env ''photo''
     = (Inl (Exception ''down''), [Call 0, Sleep 2, Call 1, Sleep 4, Call 2])"
  using generate_chef_image_retry [of sample_env "''photo''"]
    generate_chef_image_retry [of failing_env "''photo''"]
  by (simp add: sample_env_def failing_env_def processed_def)

subsection \<open>The review with no readable image\<close>

lemma read_image_parts_none:
  "\<forall>p \<in> set paths. files env (local_path p) = None \<Longrightarrow> read_image_parts env paths = []"
  by (induction paths) auto

lemma set_dict_keys: "set (dict_keys ks) = set ks"
  by (induction ks) auto

lemma distinct_dict_keys: "distinct (dict_keys ks)"
  by (induction ks) (auto simp: distinct_removeAll)

lemma map_of_zero_scores:
  "map_of (map (\<lambda>k. (k, 0::int)) ks) n = (if n \<in> set ks then Some 0 else None)"
  by (induction ks) auto

text \<open>
  C5. When none of the given paths can be read (in particular when no path is given),
  \<open>review_pizza_images\<close> returns the summary "No images supplied for review." with a
  score dictionary whose keys are exactly the category names of the store, each mapped
  to 0, and sends no request to the remote provider.
\<close>

theorem review_pizza_images_no_images:
  assumes "\<forall>p \<in> set pizza_image_paths. files env (local_path p) = None"
  shows "\<exists>scores.
           review_pizza_images env d pizza_image_paths chef_name
             = (Inr \<lparr>rd_review_summary = Some ''No images supplied for review.'',
                     rd_scores = Some scores\<rparr>, [])
           \<and> distinct (map fst scores)
           \<and> (\<forall>n. map_of scores n
                  = (if n \<in> ReviewCategory_name ` set (review_categories d)
                     then Some 0 else None))"
proof -
  let ?names = "map ReviewCategory_name (review_categories d)"
  let ?scores = "map (\<lambda>cat_name. (cat_name, 0::int)) (dict_keys ?names)"
  have "review_pizza_images env d pizza_image_paths chef_name
          = (Inr \<lparr>rd_review_summary = Some ''No images supplied for review.'',
                  rd_scores = Some ?scores\<rparr>, [])"
    using read_image_parts_none [OF assms] by (simp add: review_pizza_images_def)
  moreover have "distinct (map fst ?scores)"
    by (simp add: comp_def distinct_dict_keys)
  moreover have "\<forall>n. map_of ?scores n
      = (if n \<in> ReviewCategory_name ` set (review_categories d) then Some 0 else None)"
    by (simp add: map_of_zero_scores set_dict_keys)
  ultimately show ?thesis by blast
qed

theorem review_pizza_images_no_images_witness:
  "review_pizza_images sample_env seeded_db [] ''Mario''
     = (Inr \<lparr>rd_review_summary = Some ''No images supplied for review.'',
             rd_scores = Some [(''Shape'', 0), (''Crust Quality'', 0), (''Presentation'', 0),
               (''Bake Quality'', 0), (''Flavor (estimated)'', 0), (''Overall'', 0)]\<rparr>, [])
   \<and> review_pizza_images sample_env seeded_db [''/static/images/pizzas/gone.jpg''] ''Mario''
     = (Inr \<lparr>rd_review_summary = Some ''No images supplied for review.'',
             rd_scores = Some [(''Shape'', 0), (''Crust Quality'', 0), (''Presentation'', 0),
               (''Bake Quality'', 0), (''Flavor (estimated)'', 0), (''Overall'', 0)]\<rparr>, [])"
  using review_pizza_images_no_images [of "[]" sample_env seeded_db "''Mario''"]
    review_pizza_images_no_images
      [of "[''/static/images/pizzas/gone.jpg'']" sample_env seeded_db "''Mario''"]
  by (simp add: review_pizza_images_def sample_env_def seeded_db_def seed_database_def
      empty_db_def local_path_def)

subsection \<open>Creating chefs and pizzas\<close>




text \<open>
  C3, as the claim states it, fails: \<open>create_chef\<close> with the empty name returns a chef
  and writes its row.
\<close>

theorem create_chef_empty_name_counterexample:
  "create_chef False empty_db [] None
     = (Inr \<lparr>Chef_id = 1, Chef_name = [], Chef_image_path = None\<rparr>,
        empty_db\<lparr>chefs := [\<lparr>Chef_id = 1, Chef_name = [], Chef_image_path = None\<rparr>]\<rparr>)"
  by (simp add: create_chef_def empty_db_def next_id_def Let_def)

text \<open>
  C3, amended. \<open>create_chef\<close> does not validate the name: for every name, empty or not,
  when the commit succeeds it appends one chef row with that name and image path and
  returns it, and when the commit fails it raises and writes nothing. The name is
  checked by \<open>create_chef_submit\<close> before it calls \<open>create_chef\<close>: for a name that
  is empty, or empty once stripped of whitespace, the handler answers
  "Chef name is required" and leaves the store unchanged.
\<close>

theorem create_chef_no_check:
  "create_chef False d name image_path
     = (Inr \<lparr>Chef_id = next_id (map Chef_id (chefs d)), Chef_name = name,
             Chef_image_path = image_path\<rparr>,
        d\<lparr>chefs := chefs d
             @ [\<lparr>Chef_id = next_id (map Chef_id (chefs d)), Chef_name = name,
                 Chef_image_path = image_path\<rparr>]\<rparr>)
   \<and> create_chef True d name image_path = (Inl OperationalError, d)
   \<and> (name = [] \<or> strip name = [] \<longrightarrow>
        create_chef_submit commit_raises token d name upload
          = (TemplateResponse ''create_chef.html'' ''Chef name is required'', d, None))"
  by (auto simp add: create_chef_def create_chef_submit_def Let_def)

theorem create_chef_no_check_witness:
  "strip ''  '' = []
   \<and> create_chef_submit False ''ab12cd34'' seeded_db ''  '' None
       = (TemplateResponse ''create_chef.html'' ''Chef name is required'', seeded_db, None)"
  using create_chef_no_check [of seeded_db "''  ''" None False "''ab12cd34''" None]
  by (simp add: strip_def py_isspace_def)

subsection \<open>Saving a review\<close>

lemma next_id_fresh: "x \<in> set ids \<Longrightarrow> x < next_id ids"
proof (cases ids)
  case Nil
  then show "x \<in> set ids \<Longrightarrow> x < next_id ids" by simp
next
  case (Cons a as)
  assume "x \<in> set ids"
  then have "x \<le> Max (set (a # as))" using Cons by (simp del: set_simps Max.insert)
  also have "\<dots> = fold max as a" by (rule Max.set_eq_fold)
  finally show "x < next_id ids" using Cons by (simp add: next_id_def)
qed

lemma insert_scores_new:
  "\<exists>new. insert_scores table recs = table @ new \<and> map score_record new = recs"
proof (induction recs arbitrary: table)
  case Nil
  then show ?case by simp
next
  case (Cons rec recs)
  obtain review_id category_id score where rec: "rec = (review_id, category_id, score)"
    by (cases rec) auto
  let ?row = "\<lparr>PizzaReviewScore_id = next_id (map PizzaReviewScore_id table),
                PizzaReviewScore_pizza_review_id = review_id,
                PizzaReviewScore_category_id = category_id,
                PizzaReviewScore_score = score\<rparr>"
  from Cons.IH [of "table @ [?row]"] obtain new where
    "insert_scores (table @ [?row]) recs = (table @ [?row]) @ new" "map score_record new = recs"
    by blast
  then have "insert_scores table (rec # recs) = table @ (?row # new)
             \<and> map score_record (?row # new) = rec # recs"
    by (simp add: rec score_record_def)
  then show ?case by (rule exI)
qed

lemma new_scores_insert:
  "pizza_review_scores d' = insert_scores (pizza_review_scores d) recs \<Longrightarrow>
   pizza_review_scores d' = pizza_review_scores d @ new_scores d d'
   \<and> map score_record (new_scores d d') = recs"
  using insert_scores_new [of "pizza_review_scores d" recs] by (auto simp: new_scores_def)

lemma score_records_eq:
  "score_records cmap rid items
     = map (\<lambda>(n, s). (rid, the (cmap n), s)) (filter (\<lambda>(n, s). cmap n \<noteq> None) items)"
  by (induction items) (auto split: option.splits)

lemma category_map_None:
  "(category_map cats n = None) = (n \<notin> ReviewCategory_name ` set cats)"
  by (simp add: category_map_def map_of_eq_None_iff image_image)

lemma category_map_Some:
  "distinct (map ReviewCategory_name cats) \<Longrightarrow> c \<in> set cats \<Longrightarrow>
   category_map cats (ReviewCategory_name c) = Some (ReviewCategory_id c)"
  unfolding category_map_def
  by (rule map_of_is_SomeI) (auto simp: rev_map [symmetric] comp_def)

lemma find_by_id:
  "distinct (map f xs) \<Longrightarrow> x \<in> set xs \<Longrightarrow> find (\<lambda>y. f y = f x) xs = Some x"
proof (induction xs)
  case Nil
  then show ?case by simp
next
  case (Cons a xs)
  show ?case
  proof (cases "a = x")
    case True
    then show ?thesis by simp
  next
    case False
    with Cons.prems have "x \<in> set xs" by simp
    then have "f x \<in> f ` set xs" by (rule imageI)
    with Cons.prems have "f a \<noteq> f x" by auto
    with Cons.IH Cons.prems \<open>x \<in> set xs\<close> show ?thesis by simp
  qed
qed

lemma length_filter_key:
  "distinct (map fst items) \<Longrightarrow>
   length (filter (\<lambda>x. fst x = k) items) = (if k \<in> fst ` set items then 1 else 0)"
proof (induction items)
  case Nil
  then show ?case by simp
next
  case (Cons a items)
  then show ?case by (cases "fst a = k") (auto simp: image_iff)
qed

lemma overflows_score_records:
  "overflows (score_records cmap rid items)
     = list_ex (\<lambda>(n, s). cmap n \<noteq> None \<and> \<not> sqlite_integer s) items"
  by (induction items) (auto simp: overflows_def split: option.splits)

lemma overflows_scores_fit:
  "overflows (score_records (category_map (review_categories d)) rid items)
     = (\<not> scores_fit d items)"
  unfolding overflows_score_records scores_fit_def list_ex_iff list_all_iff
  by (auto simp: category_map_None)

lemma scores_fit_update:
  "scores_fit (d\<lparr>pizza_review := reviews\<rparr>) items = scores_fit d items"
  by (simp add: scores_fit_def)

lemma save_review_ok:
  assumes "rd_review_summary rd = Some summary" "rd_scores rd = Some items"
    "\<not> commit_raises 0" "\<not> commit_raises 1" "scores_fit d items"
  shows "save_review commit_raises d pizza_id rd
    = (Saved, d\<lparr>pizza_review := pizza_review d @ [saved_review d pizza_id summary],
                pizza_review_scores := insert_scores (pizza_review_scores d)
                  (score_records (category_map (review_categories d))
                     (next_id (map PizzaReview_id (pizza_review d))) items)\<rparr>)"
  using assms
  by (simp add: save_review_def saved_review_def Let_def overflows_scores_fit scores_fit_update)

lemma process_saved:
  assumes "fst (review_pizza_images env d image_paths chef_name) = Inr rd"
    and "rd_review_summary rd = Some summary" and "rd_scores rd = Some items"
    and "\<not> commit_raises 0" and "\<not> commit_raises 1" and "scores_fit d items"
  shows "process_pizza_review_background env commit_raises d pizza_id image_paths chef_name
    = (Saved, d\<lparr>pizza_review := pizza_review d @ [saved_review d pizza_id summary],
                pizza_review_scores := insert_scores (pizza_review_scores d)
                  (score_records (category_map (review_categories d))
                     (next_id (map PizzaReview_id (pizza_review d))) items)\<rparr>)"
  using assms by (simp add: process_pizza_review_background_def save_review_ok)

lemma process_saved_scores:
  assumes "fst (review_pizza_images env d image_paths chef_name) = Inr rd"
    and "rd_review_summary rd = Some summary" and "rd_scores rd = Some items"
    and "\<not> commit_raises 0" and "\<not> commit_raises 1" and "scores_fit d items"
  shows "pizza_review_scores
           (snd (process_pizza_review_background env commit_raises d pizza_id image_paths chef_name))
         = pizza_review_scores d
           @ new_scores d (snd (process_pizza_review_background env commit_raises d pizza_id
                                  image_paths chef_name))"
    and "map score_record
           (new_scores d (snd (process_pizza_review_background env commit_raises d pizza_id
                                 image_paths chef_name)))
         = score_records (category_map (review_categories d))
             (next_id (map PizzaReview_id (pizza_review d))) items"
proof -
  let ?d' = "snd (process_pizza_review_background env commit_raises d pizza_id image_paths chef_name)"
  let ?recs = "score_records (category_map (review_categories d))
             (next_id (map PizzaReview_id (pizza_review d))) items"
  have "pizza_review_scores ?d' = insert_scores (pizza_review_scores d) ?recs"
    by (simp add: process_saved [OF assms])
  from new_scores_insert [OF this]
  show "pizza_review_scores ?d' = pizza_review_scores d @ new_scores d ?d'"
    and "map score_record (new_scores d ?d') = ?recs"
    by simp_all
qed

text \<open>
  C10, as the claim states it, fails: not every integer is stored. The answer of the
  provider gives 5 to Shape and \<open>2 ^ 63\<close> to Overall, both categories of the store.
  The second commit raises \<open>OverflowError\<close>; the review row stays, and no score row is
  stored, neither for Overall nor for Shape.
\<close>

theorem score_out_of_range_counterexample:
  "process_pizza_review_background huge_env (\<lambda>k. False) sample_db 1
       [''/static/images/pizzas/a.jpg''] ''Mario Rossi''
     = (DatabaseError OverflowError,
        sample_db\<lparr>pizza_review := [\<lparr>PizzaReview_id = 1, PizzaReview_pizza_id = 1,
                                     PizzaReview_review_summary = ''Good''\<rparr>]\<rparr>)
   \<and> pizza_review_scores sample_db = []"
  by (simp add: huge_env_def sample_defs overflows_def sqlite_integer_def)

text \<open>
  C10, amended. The review task compares no score with the range 1 to 5; the only bound
  is the one of the column type. When the scores given to categories of the store all
  fit a signed 64-bit integer and the review is saved, every item of the score
  dictionary whose name is a category of the store gives a new score row with exactly
  that integer, whatever its value. The sentinel 0 of a review without images is stored
  like any other score.
\<close>

theorem score_stored_without_range_check:
  assumes "fst (review_pizza_images env d image_paths chef_name) = Inr rd"
    and "rd_review_summary rd = Some summary" and "rd_scores rd = Some items"
    and "\<not> commit_raises 0" and "\<not> commit_raises 1" and "scores_fit d items"
    and "distinct (map ReviewCategory_name (review_categories d))"
    and "c \<in> set (review_categories d)" and "(ReviewCategory_name c, s) \<in> set items"
  shows "\<exists>row \<in> set (new_scores d
             (snd (process_pizza_review_background env commit_raises d pizza_id
                     image_paths chef_name))).
           score_record row
             = (next_id (map PizzaReview_id (pizza_review d)), ReviewCategory_id c, s)"
proof -
  let ?d' = "snd (process_pizza_review_background env commit_raises d pizza_id image_paths chef_name)"
  let ?cmap = "category_map (review_categories d)"
  let ?rid = "next_id (map PizzaReview_id (pizza_review d))"
  have cm: "?cmap (ReviewCategory_name c) = Some (ReviewCategory_id c)"
    using assms(7,8) by (rule category_map_Some)
  have "(ReviewCategory_name c, s) \<in> set (filter (\<lambda>(n, s). ?cmap n \<noteq> None) items)"
    using assms(9) cm by simp
  then have "(\<lambda>(n, s). (?rid, the (?cmap n), s)) (ReviewCategory_name c, s)
      \<in> set (score_records ?cmap ?rid items)"
    unfolding score_records_eq set_map by (rule imageI)
  then have "(?rid, ReviewCategory_id c, s) \<in> set (score_records ?cmap ?rid items)"
    using cm by simp
  then have "(?rid, ReviewCategory_id c, s) \<in> score_record ` set (new_scores d ?d')"
    using process_saved_scores(2) [OF assms(1-6), of pizza_id] by (metis set_map)
  then show ?thesis by (auto simp: image_iff)
qed

theorem score_stored_without_range_check_witness:
  "scores_fit sample_db [(''Shape'', 0), (''Crust Quality'', 0), (''Presentation'', 0),
                    (''Bake Quality'', 0), (''Flavor (estimated)'', 0), (''Overall'', 0)]
   \<and> (\<exists>row \<in> set (new_scores sample_db
       (snd (process_pizza_review_background sample_env (\<lambda>k. False) sample_db 1 []
               ''Mario Rossi''))).
     score_record row = (1, 1, 0))"
  using score_stored_without_range_check
    [where env = sample_env and d = sample_db and image_paths = "[]"
       and chef_name = "''Mario Rossi''" and commit_raises = "\<lambda>k. False" and pizza_id = 1
       and rd = "\<lparr>rd_review_summary = Some ''No images supplied for review.'',
                  rd_scores = Some [(''Shape'', 0), (''Crust Quality'', 0), (''Presentation'', 0),
                    (''Bake Quality'', 0), (''Flavor (estimated)'', 0), (''Overall'', 0)]\<rparr>"
       and summary = "''No images supplied for review.''"
       and items = "[(''Shape'', 0), (''Crust Quality'', 0), (''Presentation'', 0),
                    (''Bake Quality'', 0), (''Flavor (estimated)'', 0), (''Overall'', 0)]"
       and c = "\<lparr>ReviewCategory_id = 1, ReviewCategory_name = ''Shape''\<rparr>" and s = 0]
  by (simp add: sample_defs overflows_def scores_fit_def sqlite_integer_def)

lemma filter_map_length: "length (filter P (map f xs)) = length (filter (P \<circ> f) xs)"
  by (induction xs) auto

text \<open>
  C7. When a review is saved (neither commit fails, so the scores given to categories
  fit the column), the new score rows are one row for each category of the store whose
  name is a key of the score dictionary and none for any other category, and there are
  as many new rows as the dictionary has keys that name a category: a key that names no
  category adds no row, and the task still reports success.
\<close>

theorem one_score_row_per_known_category:
  assumes "fst (review_pizza_images env d image_paths chef_name) = Inr rd"
    and "rd_review_summary rd = Some summary" and "rd_scores rd = Some items"
    and "\<not> commit_raises 0" and "\<not> commit_raises 1" and "scores_fit d items"
    and "unique_categories d" and "distinct (map fst items)"
  shows "fst (process_pizza_review_background env commit_raises d pizza_id image_paths chef_name)
           = Saved
    \<and> (\<forall>c \<in> set (review_categories d).
          length (filter (\<lambda>row. PizzaReviewScore_category_id row = ReviewCategory_id c)
                    (new_scores d (snd (process_pizza_review_background env commit_raises d
                                          pizza_id image_paths chef_name))))
            = (if ReviewCategory_name c \<in> fst ` set items then 1 else 0))
    \<and> length (new_scores d (snd (process_pizza_review_background env commit_raises d
                                    pizza_id image_paths chef_name)))
        = length (filter (\<lambda>(n, s). n \<in> ReviewCategory_name ` set (review_categories d)) items)"
proof (intro conjI ballI)
  let ?d' = "snd (process_pizza_review_background env commit_raises d pizza_id image_paths chef_name)"
  let ?cats = "review_categories d"
  let ?cmap = "category_map ?cats"
  let ?rid = "next_id (map PizzaReview_id (pizza_review d))"
  let ?known = "filter (\<lambda>(n, s). ?cmap n \<noteq> None) items"
  have dn: "distinct (map ReviewCategory_name ?cats)" and di: "distinct (map ReviewCategory_id ?cats)"
    using assms(7) by (simp_all add: unique_categories_def)
  have recs: "map score_record (new_scores d ?d')
      = map (\<lambda>(n, s). (?rid, the (?cmap n), s)) ?known"
    using process_saved_scores(2) [OF assms(1-6), of pizza_id] by (simp add: score_records_eq)
  show "fst (process_pizza_review_background env commit_raises d pizza_id image_paths chef_name)
      = Saved"
    by (simp add: process_saved [OF assms(1-6)])
  have "length (new_scores d ?d') = length (map score_record (new_scores d ?d'))" by simp
  also have "\<dots> = length ?known" unfolding recs by simp
  also have "?known = filter (\<lambda>(n, s). n \<in> ReviewCategory_name ` set ?cats) items"
    by (rule filter_cong) (auto simp: category_map_None)
  finally show "length (new_scores d ?d')
      = length (filter (\<lambda>(n, s). n \<in> ReviewCategory_name ` set ?cats) items)" .
  fix c assume c: "c \<in> set ?cats"
  have same: "\<And>n s. (n, s) \<in> set ?known \<Longrightarrow>
      (the (?cmap n) = ReviewCategory_id c) = (n = ReviewCategory_name c)"
  proof -
    fix n s assume "(n, s) \<in> set ?known"
    then have "n \<in> ReviewCategory_name ` set ?cats" by (auto simp: category_map_None)
    then obtain c' where c': "c' \<in> set ?cats" "n = ReviewCategory_name c'" by auto
    then have cm: "?cmap n = Some (ReviewCategory_id c')" using dn by (simp add: category_map_Some)
    have "(ReviewCategory_id c' = ReviewCategory_id c) = (c' = c)"
      using di c c'(1) by (auto simp: distinct_map inj_on_def)
    moreover have "(ReviewCategory_name c' = ReviewCategory_name c) = (c' = c)"
      using dn c c'(1) by (auto simp: distinct_map inj_on_def)
    ultimately show "(the (?cmap n) = ReviewCategory_id c) = (n = ReviewCategory_name c)"
      using cm c'(2) by simp
  qed
  have "length (filter (\<lambda>row. PizzaReviewScore_category_id row = ReviewCategory_id c)
                  (new_scores d ?d'))
      = length (filter (\<lambda>t. fst (snd t) = ReviewCategory_id c)
                  (map score_record (new_scores d ?d')))"
    by (simp add: filter_map_length comp_def score_record_def)
  also have "\<dots> = length (filter (\<lambda>x. the (?cmap (fst x)) = ReviewCategory_id c) ?known)"
    unfolding recs by (simp add: filter_map_length comp_def case_prod_beta)
  also have "filter (\<lambda>x. the (?cmap (fst x)) = ReviewCategory_id c) ?known
      = filter (\<lambda>x. fst x = ReviewCategory_name c) ?known"
  proof (rule filter_cong [OF refl])
    fix x assume x: "x \<in> set ?known"
    obtain n s where ns: "x = (n, s)" by (cases x)
    from same [of n s] x ns
    show "(the (?cmap (fst x)) = ReviewCategory_id c) = (fst x = ReviewCategory_name c)"
      by simp
  qed
  also have "\<dots> = filter (\<lambda>x. fst x = ReviewCategory_name c) items"
    unfolding filter_filter
  proof (rule filter_cong [OF refl])
    fix x assume "x \<in> set items"
    show "((case x of (n, s) \<Rightarrow> ?cmap n \<noteq> None) \<and> fst x = ReviewCategory_name c)
        = (fst x = ReviewCategory_name c)"
      using category_map_Some [OF dn c] by (cases x) auto
  qed
  also have "length \<dots> = (if ReviewCategory_name c \<in> fst ` set items then 1 else 0)"
    using assms(8) by (rule length_filter_key)
  finally show "length (filter (\<lambda>row. PizzaReviewScore_category_id row = ReviewCategory_id c)
                    (new_scores d ?d'))
            = (if ReviewCategory_name c \<in> fst ` set items then 1 else 0)" .
qed

theorem one_score_row_per_known_category_witness:
  "fst (process_pizza_review_background drift_env (\<lambda>k. False) sample_db 1
          [''/static/images/pizzas/a.jpg''] ''Mario Rossi'') = Saved
   \<and> map score_record
        (new_scores sample_db
           (snd (process_pizza_review_background drift_env (\<lambda>k. False) sample_db 1
                   [''/static/images/pizzas/a.jpg''] ''Mario Rossi'')))
       = [(1, 1, 4), (1, 6, 3)]"
  using one_score_row_per_known_category
    [where env = drift_env and d = sample_db and image_paths = "[''/static/images/pizzas/a.jpg'']"
       and chef_name = "''Mario Rossi''" and commit_raises = "\<lambda>k. False" and pizza_id = 1
       and rd = "\<lparr>rd_review_summary = Some ''Good'',
                  rd_scores = Some [(''Shape'', 4), (''Aroma'', 5), (''Overall'', 3)]\<rparr>"
       and summary = "''Good''"
       and items = "[(''Shape'', 4), (''Aroma'', 5), (''Overall'', 3)]"]
  by (simp add: drift_env_def sample_defs unique_categories_def overflows_def scores_fit_def
      sqlite_integer_def)

subsection \<open>One review for each pizza\<close>

text \<open>
  The application keeps every pizza at one review at most: the store starts without
  reviews, a submitted pizza gets a fresh id, for which no review exists when reviews
  refer to pizzas of the store, and the review task adds at most one review, for the
  pizza it was scheduled for.
\<close>

lemma one_review_seeded: "one_review_per_pizza seeded_db"
  by (simp add: one_review_per_pizza_def seeded_db_def seed_database_def empty_db_def)

lemma scheduled_review_is_first:
  assumes "submit_pizza_handler commit_raises tokens d chef_id images
             = (resp, d', Some (pizza_id, paths, chef_name))"
    and "set (map PizzaReview_pizza_id (pizza_review d)) \<subseteq> set (map Pizza_id (pizzas d))"
  shows "pizza_id \<notin> set (map PizzaReview_pizza_id (pizza_review d))"
proof -
  have "pizza_id = next_id (map Pizza_id (pizzas d))"
    using assms(1)
    by (auto simp: submit_pizza_handler_def create_pizza_def Let_def
        split: option.splits if_splits prod.splits sum.splits)
  moreover have "next_id (map Pizza_id (pizzas d)) \<notin> set (map Pizza_id (pizzas d))"
    using next_id_fresh [of "next_id (map Pizza_id (pizzas d))" "map Pizza_id (pizzas d)"]
    by auto
  ultimately show ?thesis using assms(2) by auto
qed

lemma one_review_preserved:
  assumes "one_review_per_pizza d"
    and "pizza_id \<notin> set (map PizzaReview_pizza_id (pizza_review d))"
  shows "one_review_per_pizza
           (snd (process_pizza_review_background env commit_raises d pizza_id image_paths
                   chef_name))"
proof (cases "fst (review_pizza_images env d image_paths chef_name)")
  case (Inl e)
  then show ?thesis using assms(1) by (simp add: process_pizza_review_background_def)
next
  case (Inr rd)
  have "pizza_review (snd (save_review commit_raises d pizza_id rd)) = pizza_review d
      \<or> (\<exists>summary. pizza_review (snd (save_review commit_raises d pizza_id rd))
            = pizza_review d @ [saved_review d pizza_id summary])"
    by (auto simp: save_review_def saved_review_def Let_def split: option.splits)
  then have "one_review_per_pizza (snd (save_review commit_raises d pizza_id rd))"
    using assms by (auto simp: one_review_per_pizza_def saved_review_def)
  then show ?thesis using Inr by (simp add: process_pizza_review_background_def)
qed

subsection \<open>Reading a saved review back\<close>




subsection \<open>What a failed review task leaves behind\<close>

text \<open>
  C1, as the claim states it, fails. When the answer of the provider has a summary and
  no scores, the task fails after its first commit: the review row stays in the store
  and no score row is written. The same happens when the second commit fails.
\<close>

theorem review_without_scores_counterexample:
  "process_pizza_review_background partial_env (\<lambda>k. False) sample_db 1
       [''/static/images/pizzas/a.jpg''] ''Mario Rossi''
     = (DatabaseError (KeyError ''scores''),
        sample_db\<lparr>pizza_review := [\<lparr>PizzaReview_id = 1, PizzaReview_pizza_id = 1,
                                     PizzaReview_review_summary = ''Good''\<rparr>]\<rparr>)
   \<and> process_pizza_review_background sample_env (\<lambda>k. k = 1) sample_db 1
       [''/static/images/pizzas/a.jpg''] ''Mario Rossi''
     = (DatabaseError OperationalError,
        sample_db\<lparr>pizza_review := [\<lparr>PizzaReview_id = 1, PizzaReview_pizza_id = 1,
                                     PizzaReview_review_summary = ''Good''\<rparr>]\<rparr>)
   \<and> pizza_review_scores sample_db = []"
  by (simp add: partial_env_def sample_defs overflows_def sqlite_integer_def)

text \<open>
  C1, amended. The task writes a review in two commits, each atomic: the review row
  first, then all its score rows together. It ends in one of three ways. Nothing is
  written when the review call raises, the summary is missing or the first commit
  fails. The review row alone is written, and the task reports a failure, when the
  scores are missing or the second commit fails (the engine fails it, or a score given
  to a category does not fit the column). Otherwise the review row is written with the
  complete set of score rows, one for each item whose name is a category. A part of the
  score rows is never written.
\<close>

theorem review_saved_in_two_commits:
  "(\<forall>e. fst (review_pizza_images env d image_paths chef_name) = Inl e \<longrightarrow>
      process_pizza_review_background env commit_raises d pizza_id image_paths chef_name
        = (ReviewFailed e, d))
   \<and> (\<forall>rd. fst (review_pizza_images env d image_paths chef_name) = Inr rd \<longrightarrow>
        (rd_review_summary rd = None \<or> commit_raises 0 \<longrightarrow>
           snd (process_pizza_review_background env commit_raises d pizza_id image_paths chef_name)
             = d
           \<and> fst (process_pizza_review_background env commit_raises d pizza_id image_paths
                    chef_name) \<noteq> Saved)
      \<and> (\<forall>summary. rd_review_summary rd = Some summary \<and> \<not> commit_raises 0
             \<and> (rd_scores rd = None \<or> commit_raises 1
                  \<or> (\<exists>items. rd_scores rd = Some items \<and> \<not> scores_fit d items)) \<longrightarrow>
           snd (process_pizza_review_background env commit_raises d pizza_id image_paths chef_name)
             = d\<lparr>pizza_review := pizza_review d @ [saved_review d pizza_id summary]\<rparr>
           \<and> fst (process_pizza_review_background env commit_raises d pizza_id image_paths
                    chef_name) \<noteq> Saved)
      \<and> (\<forall>summary items. rd_review_summary rd = Some summary \<and> rd_scores rd = Some items
             \<and> \<not> commit_raises 0 \<and> \<not> commit_raises 1 \<and> scores_fit d items \<longrightarrow>
           process_pizza_review_background env commit_raises d pizza_id image_paths chef_name
             = (Saved,
                d\<lparr>pizza_review := pizza_review d @ [saved_review d pizza_id summary],
                  pizza_review_scores := pizza_review_scores d
                    @ new_scores d (snd (process_pizza_review_background env commit_raises d
                                           pizza_id image_paths chef_name))\<rparr>)
           \<and> map score_record
               (new_scores d (snd (process_pizza_review_background env commit_raises d
                                     pizza_id image_paths chef_name)))
             = score_records (category_map (review_categories d))
                 (next_id (map PizzaReview_id (pizza_review d))) items))"
proof (intro conjI allI impI)
  fix e assume "fst (review_pizza_images env d image_paths chef_name) = Inl e"
  then show "process_pizza_review_background env commit_raises d pizza_id image_paths chef_name
        = (ReviewFailed e, d)"
    by (simp add: process_pizza_review_background_def)
next
  fix rd assume rd: "fst (review_pizza_images env d image_paths chef_name) = Inr rd"
    and a: "rd_review_summary rd = None \<or> commit_raises 0"
  from rd a show "snd (process_pizza_review_background env commit_raises d pizza_id image_paths
      chef_name) = d"
    by (auto simp: process_pizza_review_background_def save_review_def split: option.splits)
  from rd a show "fst (process_pizza_review_background env commit_raises d pizza_id image_paths
      chef_name) \<noteq> Saved"
    by (auto simp: process_pizza_review_background_def save_review_def split: option.splits)
next
  fix rd summary
  assume rd: "fst (review_pizza_images env d image_paths chef_name) = Inr rd"
    and a: "rd_review_summary rd = Some summary \<and> \<not> commit_raises 0
             \<and> (rd_scores rd = None \<or> commit_raises 1
                  \<or> (\<exists>items. rd_scores rd = Some items \<and> \<not> scores_fit d items))"
  from rd a show "snd (process_pizza_review_background env commit_raises d pizza_id image_paths
      chef_name) = d\<lparr>pizza_review := pizza_review d @ [saved_review d pizza_id summary]\<rparr>"
    by (auto simp: process_pizza_review_background_def save_review_def saved_review_def Let_def
        overflows_scores_fit scores_fit_update split: option.splits)
  from rd a show "fst (process_pizza_review_background env commit_raises d pizza_id image_paths
      chef_name) \<noteq> Saved"
    by (auto simp: process_pizza_review_background_def save_review_def Let_def
        overflows_scores_fit scores_fit_update split: option.splits)
next
  fix rd summary items
  assume rd: "fst (review_pizza_images env d image_paths chef_name) = Inr rd"
    and a: "rd_review_summary rd = Some summary \<and> rd_scores rd = Some items
             \<and> \<not> commit_raises 0 \<and> \<not> commit_raises 1 \<and> scores_fit d items"
  from a have s: "rd_review_summary rd = Some summary" and i: "rd_scores rd = Some items"
    and c0: "\<not> commit_raises 0" and c1: "\<not> commit_raises 1" and sf: "scores_fit d items"
    by simp_all
  note ps = process_saved [OF rd s i c0 c1 sf, of pizza_id]
  note pss = process_saved_scores [OF rd s i c0 c1 sf, of pizza_id]
  show "map score_record
          (new_scores d (snd (process_pizza_review_background env commit_raises d
                                pizza_id image_paths chef_name)))
        = score_records (category_map (review_categories d))
            (next_id (map PizzaReview_id (pizza_review d))) items"
    by (rule pss(2))
  have "insert_scores (pizza_review_scores d)
          (score_records (category_map (review_categories d))
             (next_id (map PizzaReview_id (pizza_review d))) items)
        = pizza_review_scores d
          @ new_scores d (snd (process_pizza_review_background env commit_raises d
                                 pizza_id image_paths chef_name))"
    using pss(1) by (simp add: ps)
  then show "process_pizza_review_background env commit_raises d pizza_id image_paths chef_name
      = (Saved,
         d\<lparr>pizza_review := pizza_review d @ [saved_review d pizza_id summary],
           pizza_review_scores := pizza_review_scores d
             @ new_scores d (snd (process_pizza_review_background env commit_raises d
                                    pizza_id image_paths chef_name))\<rparr>)"
    using ps by simp
qed

theorem review_saved_in_two_commits_witness:
  "process_pizza_review_background failing_env (\<lambda>k. False) sample_db 1
       [''/static/images/pizzas/a.jpg''] ''Mario Rossi''
     = (ReviewFailed (Exception ''down''), sample_db)
   \<and> snd (process_pizza_review_background sample_env (\<lambda>k. k = 0) sample_db 1
       [''/static/images/pizzas/a.jpg''] ''Mario Rossi'') = sample_db
   \<and> snd (process_pizza_review_background partial_env (\<lambda>k. False) sample_db 1
       [''/static/images/pizzas/a.jpg''] ''Mario Rossi'')
     = sample_db\<lparr>pizza_review := [saved_review sample_db 1 ''Good'']\<rparr>
   \<and> map score_record
        (new_scores sample_db
           (snd (process_pizza_review_background sample_env (\<lambda>k. False) sample_db 1
                   [''/static/images/pizzas/a.jpg''] ''Mario Rossi'')))
       = [(1, 1, 5), (1, 6, 3)]"
  using review_saved_in_two_commits
      [of failing_env sample_db "[''/static/images/pizzas/a.jpg'']" "''Mario Rossi''"
          "\<lambda>k. False" 1]
    review_saved_in_two_commits
      [of sample_env sample_db "[''/static/images/pizzas/a.jpg'']" "''Mario Rossi''"
          "\<lambda>k. k = 0" 1]
    review_saved_in_two_commits
      [of partial_env sample_db "[''/static/images/pizzas/a.jpg'']" "''Mario Rossi''"
          "\<lambda>k. False" 1]
    review_saved_in_two_commits
      [of sample_env sample_db "[''/static/images/pizzas/a.jpg'']" "''Mario Rossi''"
          "\<lambda>k. False" 1]
  by (simp add: partial_env_def failing_env_def sample_defs saved_review_def overflows_def
      scores_fit_def sqlite_integer_def)

subsection \<open>The leaderboard\<close>










subsection \<open>Deleting a chef\<close>

lemma find_exists: "x \<in> set xs \<Longrightarrow> P x \<Longrightarrow> \<exists>y. find P xs = Some y \<and> P y"
  by (induction xs) auto

lemma in_concat_map: "y \<in> set ys \<Longrightarrow> x \<in> set (f y) \<Longrightarrow> x \<in> set (concat (map f ys))"
  by auto

text \<open>
  C8. In a store where no pizza has two reviews, deleting a chef of the store removes
  the chef, every pizza of the chef, every image and the review of such a pizza, and
  every score of such a review: no row that refers to a deleted row is left. The
  categories are untouched, and when the chef has no pizza the store only loses the
  chef row.
\<close>

theorem delete_chef_cascade:
  assumes "chef \<in> set (chefs d)" and "one_review_per_pizza d"
  shows "(\<forall>c \<in> set (chefs (delete_chef d (Chef_id chef))). Chef_id c \<noteq> Chef_id chef)
    \<and> (\<forall>p \<in> set (pizzas (delete_chef d (Chef_id chef))). Pizza_chef_id p \<noteq> Chef_id chef)
    \<and> (\<forall>p \<in> set (pizzas d). Pizza_chef_id p = Chef_id chef \<longrightarrow>
          (\<forall>i \<in> set (pizza_images (delete_chef d (Chef_id chef))).
              PizzaImage_pizza_id i \<noteq> Pizza_id p)
        \<and> (\<forall>r \<in> set (pizza_review (delete_chef d (Chef_id chef))).
              PizzaReview_pizza_id r \<noteq> Pizza_id p)
        \<and> (\<forall>r \<in> set (pizza_review d). PizzaReview_pizza_id r = Pizza_id p \<longrightarrow>
              (\<forall>s \<in> set (pizza_review_scores (delete_chef d (Chef_id chef))).
                  PizzaReviewScore_pizza_review_id s \<noteq> PizzaReview_id r)))
    \<and> review_categories (delete_chef d (Chef_id chef)) = review_categories d
    \<and> ((\<forall>p \<in> set (pizzas d). Pizza_chef_id p \<noteq> Chef_id chef) \<longrightarrow>
          delete_chef d (Chef_id chef)
            = d\<lparr>chefs := filter (\<lambda>c. Chef_id c \<noteq> Chef_id chef) (chefs d)\<rparr>)"
proof -
  let ?cid = "Chef_id chef"
  let ?d' = "delete_chef d ?cid"
  let ?ps = "filter (\<lambda>p. Pizza_chef_id p = ?cid) (pizzas d)"
  let ?imgs = "concat (map (\<lambda>p. filter (\<lambda>i. PizzaImage_pizza_id i = Pizza_id p)
                                        (pizza_images d)) ?ps)"
  let ?revs = "concat (map (\<lambda>p. case find (\<lambda>r. PizzaReview_pizza_id r = Pizza_id p)
                                             (pizza_review d) of
                                        Some r \<Rightarrow> [r] | None \<Rightarrow> []) ?ps)"
  let ?scs = "concat (map (\<lambda>r. filter (\<lambda>s. PizzaReviewScore_pizza_review_id s
                                                  = PizzaReview_id r)
                                       (pizza_review_scores d)) ?revs)"
  from find_exists [OF assms(1), of "\<lambda>c. Chef_id c = ?cid"]
  obtain c0 where c0: "find (\<lambda>c. Chef_id c = ?cid) (chefs d) = Some c0" "Chef_id c0 = ?cid"
    by auto
  have ch: "chefs ?d' = filter (\<lambda>c. Chef_id c \<noteq> ?cid) (chefs d)"
    and pz: "pizzas ?d' = filter (\<lambda>p. Pizza_id p \<notin> set (map Pizza_id ?ps)) (pizzas d)"
    and im: "pizza_images ?d'
      = filter (\<lambda>i. PizzaImage_id i \<notin> set (map PizzaImage_id ?imgs)) (pizza_images d)"
    and rv: "pizza_review ?d'
      = filter (\<lambda>r. PizzaReview_id r \<notin> set (map PizzaReview_id ?revs)) (pizza_review d)"
    and sc: "pizza_review_scores ?d'
      = filter (\<lambda>s. PizzaReviewScore_id s \<notin> set (map PizzaReviewScore_id ?scs))
          (pizza_review_scores d)"
    and ct: "review_categories ?d' = review_categories d"
    unfolding delete_chef_def c0(1) by (simp_all add: Let_def c0(2))
  have in_revs: "r \<in> set ?revs"
    if "p \<in> set (pizzas d)" "Pizza_chef_id p = ?cid" "r \<in> set (pizza_review d)"
      "PizzaReview_pizza_id r = Pizza_id p" for p r
  proof -
    have "find (\<lambda>y. PizzaReview_pizza_id y = PizzaReview_pizza_id r) (pizza_review d) = Some r"
      using assms(2) that(3) unfolding one_review_per_pizza_def by (rule find_by_id)
    then have "find (\<lambda>y. PizzaReview_pizza_id y = Pizza_id p) (pizza_review d) = Some r"
      using that(4) by simp
    then have "r \<in> set (case find (\<lambda>y. PizzaReview_pizza_id y = Pizza_id p) (pizza_review d) of
                        Some r \<Rightarrow> [r] | None \<Rightarrow> [])"
      by simp
    moreover have "p \<in> set ?ps" using that(1,2) by simp
    ultimately show ?thesis by (rule in_concat_map [rotated])
  qed
  show ?thesis
  proof (intro conjI ballI impI)
    fix c assume "c \<in> set (chefs ?d')"
    then show "Chef_id c \<noteq> ?cid" by (simp add: ch)
  next
    fix p assume "p \<in> set (pizzas ?d')"
    then show "Pizza_chef_id p \<noteq> ?cid" unfolding pz by auto
  next
    fix p i assume p: "p \<in> set (pizzas d)" "Pizza_chef_id p = ?cid"
      and i: "i \<in> set (pizza_images ?d')"
    show "PizzaImage_pizza_id i \<noteq> Pizza_id p"
    proof
      assume e: "PizzaImage_pizza_id i = Pizza_id p"
      from i have ii: "i \<in> set (pizza_images d)" unfolding im by simp
      have "p \<in> set ?ps" using p by simp
      moreover have "i \<in> set (filter (\<lambda>i. PizzaImage_pizza_id i = Pizza_id p) (pizza_images d))"
        using ii e by simp
      ultimately have "i \<in> set ?imgs" by (rule in_concat_map)
      then have "PizzaImage_id i \<in> PizzaImage_id ` set ?imgs" by (rule imageI)
      with i show False unfolding im by simp
    qed
  next
    fix p r assume p: "p \<in> set (pizzas d)" "Pizza_chef_id p = ?cid"
      and r: "r \<in> set (pizza_review ?d')"
    show "PizzaReview_pizza_id r \<noteq> Pizza_id p"
    proof
      assume e: "PizzaReview_pizza_id r = Pizza_id p"
      from r have rr: "r \<in> set (pizza_review d)" unfolding rv by simp
      from in_revs [OF p rr e] have "PizzaReview_id r \<in> PizzaReview_id ` set ?revs"
        by (rule imageI)
      with r show False unfolding rv by simp
    qed
  next
    fix p r s assume p: "p \<in> set (pizzas d)" "Pizza_chef_id p = ?cid"
      and r: "r \<in> set (pizza_review d)" "PizzaReview_pizza_id r = Pizza_id p"
      and s: "s \<in> set (pizza_review_scores ?d')"
    show "PizzaReviewScore_pizza_review_id s \<noteq> PizzaReview_id r"
    proof
      assume e: "PizzaReviewScore_pizza_review_id s = PizzaReview_id r"
      from s have ss: "s \<in> set (pizza_review_scores d)" unfolding sc by simp
      have "s \<in> set (filter (\<lambda>s. PizzaReviewScore_pizza_review_id s = PizzaReview_id r)
                         (pizza_review_scores d))"
        using ss e by simp
      with in_revs [OF p r] have "s \<in> set ?scs" by (rule in_concat_map)
      then have "PizzaReviewScore_id s \<in> PizzaReviewScore_id ` set ?scs" by (rule imageI)
      with s show False unfolding sc by simp
    qed
  next
    show "review_categories ?d' = review_categories d" by (rule ct)
  next
    assume "\<forall>p \<in> set (pizzas d). Pizza_chef_id p \<noteq> ?cid"
    then have "?ps = []" by (simp add: filter_empty_conv)
    then show "?d' = d\<lparr>chefs := filter (\<lambda>c. Chef_id c \<noteq> ?cid) (chefs d)\<rparr>"
      unfolding delete_chef_def c0(1) by (simp add: Let_def c0(2))
  qed
qed

lemmas chefs_defs = delete_chef_def two_chefs_db_def one_review_per_pizza_def seeded_db_def
  seed_database_def empty_db_def Let_def

theorem delete_chef_cascade_witness:
  "one_review_per_pizza two_chefs_db
   \<and> map Chef_id (chefs (delete_chef two_chefs_db 1)) = [2]
   \<and> map Pizza_id (pizzas (delete_chef two_chefs_db 1)) = [2]
   \<and> map PizzaImage_id (pizza_images (delete_chef two_chefs_db 1)) = [2]
   \<and> map PizzaReview_id (pizza_review (delete_chef two_chefs_db 1)) = [2]
   \<and> map PizzaReviewScore_id (pizza_review_scores (delete_chef two_chefs_db 1)) = [3]"
  using delete_chef_cascade
    [of "\<lparr>Chef_id = 1, Chef_name = ''Mario Rossi'', Chef_image_path = None\<rparr>" two_chefs_db]
  by (simp add: chefs_defs)

end
